theory Spec2Isabelle
  imports Complex_Main
begin

section \<open>SSL certificate expiry checker: a shallow embedding of checker.py\<close>

text \<open>
  The model follows \<^verbatim>\<open>src/ssl-cert-checker/checker.py\<close>. Everything the
  program asks of its surroundings (the TLS handshake, the clock, the webhook
  request) is an outcome handed to the model; every \<^verbatim>\<open>raise\<close> is the
  \<open>Inl\<close> branch of a sum, and the two output streams and the webhook requests
  made are fields of an explicit state.
\<close>

subsection \<open>Dates and durations\<close>

text \<open>
  A \<^verbatim>\<open>datetime.datetime\<close> in UTC, by the three numbers that its subtraction
  reads: \<^verbatim>\<open>toordinal()\<close> (the day number, 1 for 0001-01-01), the second of
  the day (\<^verbatim>\<open>hour*3600 + minute*60 + second\<close>) and the microsecond.
\<close>

record datetime =
  ordinal :: int
  second_of_day :: int
  microsecond :: int

text \<open>The dates Python can represent: years 1 to 9999.\<close>

definition valid_datetime :: "datetime \<Rightarrow> bool" where
  "valid_datetime dt \<longleftrightarrow>
     1 \<le> ordinal dt \<and> ordinal dt \<le> 3652059 \<and>
     0 \<le> second_of_day dt \<and> second_of_day dt < 86400 \<and>
     0 \<le> microsecond dt \<and> microsecond dt < 1000000"

text \<open>
  A \<^verbatim>\<open>datetime.timedelta\<close>: the normalised triple, with
  \<open>0 \<le> seconds < 86400\<close> and \<open>0 \<le> microseconds < 1000000\<close>; only \<open>days\<close>
  carries the sign.
\<close>

record timedelta =
  days :: int
  seconds :: int
  microseconds :: int

text \<open>
  The constructor \<^verbatim>\<open>timedelta(days, seconds, microseconds)\<close> on integers:
  the carries are Python's \<^verbatim>\<open>divmod\<close>, which rounds towards minus infinity,
  as \<open>div\<close> and \<open>mod\<close> on \<open>int\<close> do.
\<close>

definition mk_timedelta :: "int \<Rightarrow> int \<Rightarrow> int \<Rightarrow> timedelta" where
  "mk_timedelta d s us =
     (let s1 = s + us div 1000000;
          us1 = us mod 1000000;
          d1 = d + s1 div 86400;
          s2 = s1 mod 86400
      in \<lparr>days = d1, seconds = s2, microseconds = us1\<rparr>)"

text \<open>
  \<^verbatim>\<open>dt - now\<close> for two datetimes of the same time zone: the field-wise
  differences, normalised by the constructor.
\<close>

definition datetime_sub :: "datetime \<Rightarrow> datetime \<Rightarrow> timedelta" where
  "datetime_sub a b =
     mk_timedelta (ordinal a - ordinal b)
                  (second_of_day a - second_of_day b)
                  (microsecond a - microsecond b)"

text \<open>
  \<^verbatim>\<open>days_until(dt)\<close>, lines 44-47. The clock read
  \<^verbatim>\<open>datetime.datetime.now(datetime.timezone.utc)\<close> is the first argument.
\<close>

definition days_until :: "datetime \<Rightarrow> datetime \<Rightarrow> int" where
  "days_until now dt = (let delta = datetime_sub dt now in days delta)"

text \<open>
  The instant of a datetime, in microseconds since the start of day 0, and the
  day count in the words of the specification: the floor of the duration
  \<open>expiry - now\<close> measured in days.
\<close>

definition instant :: "datetime \<Rightarrow> int" where
  "instant dt = (ordinal dt * 86400 + second_of_day dt) * 1000000 + microsecond dt"

definition spec_days_remaining :: "datetime \<Rightarrow> datetime \<Rightarrow> int" where
  "spec_days_remaining now expiry =
     \<lfloor>real_of_int (instant expiry - instant now) / 86400000000\<rfloor>"

subsection \<open>Configuration\<close>

text \<open>
  One entry of \<^verbatim>\<open>sites\<close>: a dictionary with a \<^verbatim>\<open>host\<close> and the optional
  keys \<^verbatim>\<open>port\<close> and \<^verbatim>\<open>name\<close>. The thresholds are a dictionary from key
  to integer day count; any key may be missing.
\<close>

record entry =
  host :: string
  port :: "int option"
  name :: "string option"

type_synonym thresholds = "string \<rightharpoonup> int"

text \<open>\<^verbatim>\<open>d.get(key, default)\<close>\<close>

definition get_default :: "('k \<rightharpoonup> 'v) \<Rightarrow> 'k \<Rightarrow> 'v \<Rightarrow> 'v" where
  "get_default d k dflt = (case d k of None \<Rightarrow> dflt | Some v \<Rightarrow> v)"

subsection \<open>Classification\<close>

text \<open>
  Lines 63-69 of \<^verbatim>\<open>check_site\<close>: the local \<^verbatim>\<open>status\<close> starts as
  \<^verbatim>\<open>'OK'\<close> and is overwritten by the first branch of the
  \<^verbatim>\<open>if/elif/elif\<close> chain that applies. Statuses are the string literals of
  the source.
\<close>

definition classify :: "int \<Rightarrow> thresholds \<Rightarrow> string" where
  "classify d th =
     (if d < 0 then ''EXPIRED''
      else if d \<le> get_default th ''error_days'' 7 then ''ERROR''
      else if d \<le> get_default th ''warning_days'' 30 then ''WARNING''
      else ''OK'')"

text \<open>
  The severity order of the specification, \<open>OK < WARNING < ERROR \<approx> EXPIRED\<close>,
  as a rank.
\<close>

definition severity :: "string \<Rightarrow> nat" where
  "severity s =
     (if s = ''EXPIRED'' \<or> s = ''ERROR'' then 2
      else if s = ''WARNING'' then 1
      else 0)"

subsection \<open>Exceptions, output and the surroundings\<close>

text \<open>An instance of \<^verbatim>\<open>Exception\<close>, with its \<^verbatim>\<open>str(e)\<close>.\<close>

datatype exn = Exception string

text \<open>
  The three f-strings of \<^verbatim>\<open>check_site\<close>, each kept as a constructor over the
  values it interpolates (label, host, port, expiry, days, status; label, host,
  port, cause; cause).
\<close>

datatype line =
    StatusLine string string int datetime int string
  | RetrievalErrorLine string string int exn
  | SlackFailureLine exn

text \<open>
  What one call of \<^verbatim>\<open>check_site\<close> meets outside the program: what
  \<^verbatim>\<open>get_certificate_notAfter(host, port)\<close> does (raises, or returns the
  certificate's \<^verbatim>\<open>not_valid_after_utc\<close>), what the clock shows, and what
  the webhook request does (raises or returns).
\<close>

record outcomes =
  fetched :: "exn + datetime"
  clock :: datetime
  posted :: "exn + unit"

text \<open>
  The observable effects: the lines printed to each stream and the calls of
  \<^verbatim>\<open>send_slack\<close> made, each with its URL and the \<^verbatim>\<open>text\<close> of its
  payload, oldest first.
\<close>

record world =
  stdout :: "line list"
  stderr :: "line list"
  slack_calls :: "(string \<times> line) list"

definition print_stdout :: "line \<Rightarrow> world \<Rightarrow> world" where
  "print_stdout l w = w\<lparr>stdout := stdout w @ [l]\<rparr>"

definition print_stderr :: "line \<Rightarrow> world \<Rightarrow> world" where
  "print_stderr l w = w\<lparr>stderr := stderr w @ [l]\<rparr>"

text \<open>
  The two calls that leave the program. What the network answers is not a function
  of the arguments, so the result comes from the outcomes of this call;
  \<^verbatim>\<open>send_slack\<close> also records the request it makes.
\<close>

definition get_certificate_notAfter :: "outcomes \<Rightarrow> string \<Rightarrow> int \<Rightarrow> exn + datetime" where
  "get_certificate_notAfter env hostname prt = fetched env"

definition send_slack :: "outcomes \<Rightarrow> string \<Rightarrow> line \<Rightarrow> world \<Rightarrow> (exn + unit) \<times> world" where
  "send_slack env webhook_url text w =
     (posted env, w\<lparr>slack_calls := slack_calls w @ [(webhook_url, text)]\<rparr>)"

subsection \<open>check\_site\<close>

type_synonym result = "string \<times> string \<times> int"

text \<open>
  The body of the outer \<^verbatim>\<open>try\<close>, lines 61-81, with
  \<^verbatim>\<open>host\<close>, \<^verbatim>\<open>port\<close> and \<^verbatim>\<open>label\<close> of lines 56-58 as
  \<open>h\<close>, \<open>p\<close> and \<open>label\<close>. An exception of
  \<^verbatim>\<open>get_certificate_notAfter\<close> leaves the block; one of
  \<^verbatim>\<open>send_slack\<close> is caught by the inner handler, which prints to the error
  stream and goes on to the \<^verbatim>\<open>return\<close>.
  \<^verbatim>\<open>slack_webhook\<close> is a \<^verbatim>\<open>str | None\<close>; in a condition
  \<^verbatim>\<open>None\<close> and the empty string are false.
\<close>

definition check_site_try ::
  "outcomes \<Rightarrow> string \<Rightarrow> int \<Rightarrow> string \<Rightarrow> thresholds \<Rightarrow> string option \<Rightarrow> world
     \<Rightarrow> (exn + result) \<times> world" where
  "check_site_try env h p label th slack_webhook w =
     (case get_certificate_notAfter env h p of
        Inl e \<Rightarrow> (Inl e, w)
      | Inr expiry \<Rightarrow>
          (let d = days_until (clock env) expiry;
               status = classify d th;
               message = StatusLine label h p expiry d status;
               w1 = print_stdout message w;
               w2 = (case slack_webhook of
                       None \<Rightarrow> w1
                     | Some url \<Rightarrow>
                         if url \<noteq> [] \<and> status \<in> {''WARNING'', ''ERROR'', ''EXPIRED''}
                         then (case send_slack env url message w1 of
                                 (Inl e, w') \<Rightarrow> print_stderr (SlackFailureLine e) w'
                               | (Inr _, w') \<Rightarrow> w')
                         else w1)
           in (Inr (label, status, d), w2)))"

text \<open>
  The outer handler, lines 83-91: the inner \<^verbatim>\<open>except Exception: pass\<close>
  drops whatever \<^verbatim>\<open>send_slack\<close> raises.
\<close>

definition check_site_except ::
  "outcomes \<Rightarrow> string \<Rightarrow> int \<Rightarrow> string \<Rightarrow> string option \<Rightarrow> exn \<Rightarrow> world
     \<Rightarrow> (exn + result) \<times> world" where
  "check_site_except env h p label slack_webhook e w =
     (let err_msg = RetrievalErrorLine label h p e;
          w1 = print_stderr err_msg w;
          w2 = (case slack_webhook of
                  None \<Rightarrow> w1
                | Some url \<Rightarrow>
                    if url \<noteq> []
                    then (case send_slack env url err_msg w1 of
                            (Inl _, w') \<Rightarrow> w'
                          | (Inr _, w') \<Rightarrow> w')
                    else w1)
      in (Inr (label, ''ERROR'', - 9999), w2))"

definition check_site ::
  "outcomes \<Rightarrow> entry \<Rightarrow> thresholds \<Rightarrow> string option \<Rightarrow> world \<Rightarrow> (exn + result) \<times> world" where
  "check_site env ent th slack_webhook w =
     (let h = host ent;
          p = (case port ent of None \<Rightarrow> 443 | Some q \<Rightarrow> q);
          label = (case name ent of None \<Rightarrow> h | Some n \<Rightarrow> n)
      in case check_site_try env h p label th slack_webhook w of
           (Inl e, w') \<Rightarrow> check_site_except env h p label slack_webhook e w'
         | (Inr r, w') \<Rightarrow> (Inr r, w'))"

subsection \<open>The run and its exit code\<close>


text \<open>
  Lines 107-109: the webhook handed to every check is the value of the
  environment variable \<^verbatim>\<open>SLACK_WEBHOOK_URL\<close> (\<open>None\<close> when it is not set),
  unless \<^verbatim>\<open>--no-slack\<close> was given.
\<close>

definition configured_webhook :: "string option \<Rightarrow> bool \<Rightarrow> string option" where
  "configured_webhook environ_value no_slack =
     (let slack_webhook = environ_value
      in if no_slack then None else slack_webhook)"

text \<open>Lines 119-127: the argument of \<^verbatim>\<open>sys.exit\<close>.\<close>

definition exit_code :: "result list \<Rightarrow> int" where
  "exit_code results =
     (let codes = (\<lambda>r. fst (snd r)) ` set results
      in if ''ERROR'' \<in> codes \<or> ''EXPIRED'' \<in> codes then 2
         else if ''WARNING'' \<in> codes then 1
         else 0)"


subsection \<open>Concrete inputs\<close>

text \<open>
  A site with only a host, empty output, noon of 2026-11-03 (day 739923) as the
  clock reading, and the surroundings in which the certificate presented expires
  \<open>dd\<close> days and \<open>ss\<close> seconds after that noon.
\<close>

definition example_site :: entry where
  "example_site = \<lparr>host = ''example.org'', port = None, name = None\<rparr>"

definition world0 :: world where
  "world0 = \<lparr>stdout = [], stderr = [], slack_calls = []\<rparr>"

definition noon :: datetime where
  "noon = \<lparr>ordinal = 739923, second_of_day = 43200, microsecond = 0\<rparr>"

definition after_noon :: "int \<Rightarrow> int \<Rightarrow> datetime" where
  "after_noon dd ss = \<lparr>ordinal = 739923 + dd, second_of_day = 43200 + ss, microsecond = 0\<rparr>"

definition expiring :: "int \<Rightarrow> int \<Rightarrow> exn + unit \<Rightarrow> outcomes" where
  "expiring dd ss post = \<lparr>fetched = Inr (after_noon dd ss), clock = noon, posted = post\<rparr>"

definition unreachable :: "exn + unit \<Rightarrow> outcomes" where
  "unreachable post =
     \<lparr>fetched = Inl (Exception ''timed out''), clock = noon, posted = post\<rparr>"

text \<open>Thresholds as \<^verbatim>\<open>{'error_days': -1, 'warning_days': 30}\<close>.\<close>

definition negative_thresholds :: thresholds where
  "negative_thresholds = [''error_days'' \<mapsto> - 1, ''warning_days'' \<mapsto> 30]"

section \<open>Properties\<close>

subsection \<open>The day count as a quotient\<close>

text \<open>
  The normalised \<open>days\<close> of a difference is the quotient of the difference of
  the instants by the microseconds of a day.
\<close>

lemma days_datetime_sub:
  "days (datetime_sub a b) = (instant a - instant b) div 86400000000"
proof -
  define d where "d = ordinal a - ordinal b"
  define s where "s = second_of_day a - second_of_day b"
  define us where "us = microsecond a - microsecond b"
  have i: "instant a - instant b = (d * 86400 + s) * 1000000 + us"
    by (simp add: instant_def d_def s_def us_def algebra_simps)
  have "((d * 86400 + s) * 1000000 + us) div (1000000 * 86400)
          = (((d * 86400 + s) * 1000000 + us) div 1000000) div 86400"
    by (rule zdiv_zmult2_eq) simp
  also have "((d * 86400 + s) * 1000000 + us) div 1000000 = (d * 86400 + s) + us div 1000000"
    by simp
  also have "(d * 86400 + s + us div 1000000) div 86400 = d + (s + us div 1000000) div 86400"
    by (simp add: add.assoc)
  finally have "((d * 86400 + s) * 1000000 + us) div 86400000000
                  = d + (s + us div 1000000) div 86400" by simp
  then show ?thesis
    by (simp add: i datetime_sub_def mk_timedelta_def Let_def d_def s_def us_def)
qed

lemma days_until_div:
  "days_until now dt = (instant dt - instant now) div 86400000000"
  by (simp add: days_until_def days_datetime_sub)

lemma days_until_spec: "days_until now dt = spec_days_remaining now dt"
proof -
  have "\<lfloor>real_of_int (instant dt - instant now) / real_of_int 86400000000\<rfloor>
          = (instant dt - instant now) div 86400000000"
    by (rule floor_divide_of_int_eq)
  then have "\<lfloor>real_of_int (instant dt - instant now) / 86400000000\<rfloor>
          = (instant dt - instant now) div 86400000000"
    by (simp only: of_int_numeral)
  then show ?thesis
    by (simp only: spec_days_remaining_def days_until_div)
qed


text \<open>
  On datetimes that Python represents, the order of the instants is the order in
  which Python compares them: by date, then time of day, then microsecond.
\<close>

lemma instant_less_iff:
  assumes "valid_datetime a" and "valid_datetime b"
  shows "instant a < instant b \<longleftrightarrow>
           ordinal a < ordinal b \<or>
           ordinal a = ordinal b \<and>
             (second_of_day a < second_of_day b \<or>
              second_of_day a = second_of_day b \<and> microsecond a < microsecond b)"
  using assms unfolding instant_def valid_datetime_def by auto

subsection \<open>What check\_site returns\<close>

lemma classify_cases:
  "classify d th \<in> {''OK'', ''WARNING'', ''ERROR'', ''EXPIRED''}"
  by (simp add: classify_def)

lemma classify_expired_iff: "classify d th = ''EXPIRED'' \<longleftrightarrow> d < 0"
  by (simp add: classify_def)

lemma check_site_success:
  assumes "fetched env = Inr expiry"
  shows "fst (check_site env ent th slack_webhook w) =
           Inr (case name ent of None \<Rightarrow> host ent | Some n \<Rightarrow> n,
                classify (days_until (clock env) expiry) th,
                days_until (clock env) expiry)"
  using assms
  by (simp add: check_site_def check_site_try_def get_certificate_notAfter_def Let_def
           split: option.splits prod.splits sum.splits)







text \<open>The equations that evaluate the model on concrete inputs.\<close>

lemmas example_defs =
  example_site_def world0_def noon_def after_noon_def expiring_def unreachable_def

lemmas days_defs = days_until_def datetime_sub_def mk_timedelta_def

lemmas check_defs =
  check_site_def check_site_try_def check_site_except_def get_certificate_notAfter_def
  send_slack_def print_stdout_def print_stderr_def classify_def get_default_def Let_def

subsection \<open>C1: first-match classification in check\_site\<close>

text \<open>
  C1, as stated, promises \<open>ERROR\<close> whenever \<open>days_remaining\<close> equals
  \<open>error_days\<close> and \<open>error_days \<le> warning_days\<close>. With
  \<^verbatim>\<open>thresholds = {'error_days': -1, 'warning_days': 30}\<close> and a certificate
  that expired one second before the clock reading, \<open>days_remaining\<close> is
  \<open>-1\<close>, equal to \<open>error_days\<close>, and the first branch of the chain answers
  \<open>EXPIRED\<close>.
\<close>

theorem boundary_at_negative_error_days_counterexample:
  "get_default negative_thresholds ''error_days'' 7 \<le> get_default negative_thresholds ''warning_days'' 30 \<and>
   days_until noon (after_noon 0 (- 1)) = get_default negative_thresholds ''error_days'' 7 \<and>
   fst (check_site (expiring 0 (- 1) (Inr ())) example_site negative_thresholds None world0)
     = Inr (''example.org'', ''EXPIRED'', - 1) \<and>
   fst (check_site (expiring 0 (- 1) (Inr ())) example_site negative_thresholds None world0)
     \<noteq> Inr (''example.org'', ''ERROR'', - 1)"
  by (simp add: negative_thresholds_def example_defs days_defs check_defs)

text \<open>
  C1 (amended): when the certificate is retrieved, \<^verbatim>\<open>check_site\<close> returns
  the label, the day count \<open>d\<close> of \<^verbatim>\<open>days_until\<close>, and the status of the
  first matching branch: \<open>EXPIRED\<close> if \<open>d < 0\<close>, else \<open>ERROR\<close> if
  \<open>d \<le> error_days\<close> (default 7), else \<open>WARNING\<close> if \<open>d \<le> warning_days\<close>
  (default 30), else \<open>OK\<close>. At the boundaries: \<open>d = -1\<close> is \<open>EXPIRED\<close>
  whatever the thresholds; with \<open>e \<le> w\<close>, \<open>d = e\<close> is \<open>ERROR\<close> when
  \<open>0 \<le> e\<close>, \<open>d = e + 1 \<le> w\<close> is \<open>WARNING\<close> when \<open>0 \<le> e + 1\<close>, and
  \<open>d = w + 1\<close> is \<open>OK\<close> when \<open>0 \<le> w + 1\<close>.
\<close>

theorem check_site_status_precedence:
  assumes "fetched env = Inr expiry"
    and "d = days_until (clock env) expiry"
    and "e = get_default th ''error_days'' 7"
    and "wd = get_default th ''warning_days'' 30"
    and "label = (case name ent of None \<Rightarrow> host ent | Some n \<Rightarrow> n)"
    and "r = fst (check_site env ent th slack_webhook w)"
  shows "r = Inr (label,
                  if d < 0 then ''EXPIRED''
                  else if d \<le> e then ''ERROR''
                  else if d \<le> wd then ''WARNING''
                  else ''OK'',
                  d)
         \<and> (d = - 1 \<longrightarrow> r = Inr (label, ''EXPIRED'', d))
         \<and> (0 \<le> e \<and> e \<le> wd \<and> d = e \<longrightarrow> r = Inr (label, ''ERROR'', d))
         \<and> (0 \<le> e + 1 \<and> e + 1 \<le> wd \<and> d = e + 1 \<longrightarrow> r = Inr (label, ''WARNING'', d))
         \<and> (0 \<le> wd + 1 \<and> e \<le> wd \<and> d = wd + 1 \<longrightarrow> r = Inr (label, ''OK'', d))"
proof -
  have "r = Inr (label, classify d th, d)"
    using check_site_success[OF assms(1)] assms(2,5,6) by simp
  then show ?thesis
    using assms(3,4) by (simp add: classify_def)
qed

text \<open>
  The four boundaries under the default thresholds 7 and 30: certificates that
  expire one second before the clock reading, and 7, 8 and 31 days after it.
\<close>

theorem check_site_status_precedence_witness:
  "fst (check_site (expiring 0 (- 1) (Inr ())) example_site Map.empty None world0)
     = Inr (''example.org'', ''EXPIRED'', - 1) \<and>
   fst (check_site (expiring 7 0 (Inr ())) example_site Map.empty None world0)
     = Inr (''example.org'', ''ERROR'', 7) \<and>
   fst (check_site (expiring 8 0 (Inr ())) example_site Map.empty None world0)
     = Inr (''example.org'', ''WARNING'', 8) \<and>
   fst (check_site (expiring 31 0 (Inr ())) example_site Map.empty None world0)
     = Inr (''example.org'', ''OK'', 31)"
proof -
  have d: "days_until noon (after_noon 0 (- 1)) = - 1" "days_until noon (after_noon 7 0) = 7"
    "days_until noon (after_noon 8 0) = 8" "days_until noon (after_noon 31 0) = 31"
    by (simp_all add: example_defs days_defs)
  have f: "\<And>dd ss. fetched (expiring dd ss (Inr ())) = Inr (after_noon dd ss)"
          "\<And>dd ss. clock (expiring dd ss (Inr ())) = noon"
    by (simp_all add: expiring_def)
  note t = check_site_status_precedence[OF f(1) _ refl refl refl refl, where th = Map.empty
             and ent = example_site and slack_webhook = None and w = world0, unfolded f(2)]
  show ?thesis
    using t[of "- 1" 0 "- 1"] t[of 7 7 0] t[of 8 8 0] t[of 31 31 0] d
    by (simp add: get_default_def example_site_def)
qed


subsection \<open>C2: the exit code\<close>

text \<open>
  C2: for every list of results the exit code is 2 if some result has status
  \<open>ERROR\<close> or \<open>EXPIRED\<close>, otherwise 1 if some result has status
  \<open>WARNING\<close>, otherwise 0. It is a function of the set of statuses present:
  two result lists with the same set of statuses have the same exit code, however
  many results carry each status and whatever their labels and day counts.
\<close>

theorem exit_code_precedence:
  "exit_code results =
     (if \<exists>r\<in>set results. fst (snd r) = ''ERROR'' \<or> fst (snd r) = ''EXPIRED'' then 2
      else if \<exists>r\<in>set results. fst (snd r) = ''WARNING'' then 1
      else 0)
   \<and> ((\<lambda>r. fst (snd r)) ` set rs1 = (\<lambda>r. fst (snd r)) ` set rs2
        \<longrightarrow> exit_code rs1 = exit_code rs2)"
proof -
  have m: "\<And>c rs. c \<in> (\<lambda>r. fst (snd r)) ` set rs \<longleftrightarrow> (\<exists>r\<in>set rs. fst (snd r) = c)"
    by (auto simp: image_iff)
  have "exit_code results =
     (if \<exists>r\<in>set results. fst (snd r) = ''ERROR'' \<or> fst (snd r) = ''EXPIRED'' then 2
      else if \<exists>r\<in>set results. fst (snd r) = ''WARNING'' then 1
      else 0)"
    unfolding exit_code_def Let_def m by auto
  moreover have "(\<lambda>r. fst (snd r)) ` set rs1 = (\<lambda>r. fst (snd r)) ` set rs2
        \<longrightarrow> exit_code rs1 = exit_code rs2"
    by (simp add: exit_code_def Let_def)
  ultimately show ?thesis by blast
qed

text \<open>Result lists for each tier, and two lists that differ in length and day counts only.\<close>

theorem exit_code_precedence_witness:
  "exit_code [(''a'', ''OK'', 45), (''b'', ''WARNING'', 20), (''c'', ''EXPIRED'', - 3)] = 2 \<and>
   exit_code [(''a'', ''OK'', 45), (''b'', ''WARNING'', 20)] = 1 \<and>
   exit_code [(''a'', ''OK'', 45), (''b'', ''OK'', 400)] = 0 \<and>
   exit_code [(''b'', ''WARNING'', 20)] = exit_code [(''x'', ''WARNING'', 12), (''y'', ''WARNING'', 9)]"
  using exit_code_precedence[of "[(''a'', ''OK'', 45), (''b'', ''WARNING'', 20), (''c'', ''EXPIRED'', - 3)]"
          "[(''b'', ''WARNING'', 20)]" "[(''x'', ''WARNING'', 12), (''y'', ''WARNING'', 9)]"]
        exit_code_precedence[of "[(''a'', ''OK'', 45), (''b'', ''WARNING'', 20)]" "[]" "[]"]
        exit_code_precedence[of "[(''a'', ''OK'', 45), (''b'', ''OK'', 400)]" "[]" "[]"]
  by simp

subsection \<open>C3: failures stay inside check\_site\<close>



subsection \<open>C4: the classification is total and monotonic\<close>

text \<open>
  C4: for thresholds with \<open>error_days \<le> warning_days\<close> and every integer day
  count, the status is one of the four pairwise different literals \<open>OK\<close>,
  \<open>WARNING\<close>, \<open>ERROR\<close>, \<open>EXPIRED\<close>, and a lower day count never has a
  lower severity in the order \<open>OK < WARNING < ERROR \<approx> EXPIRED\<close>.
\<close>

theorem classify_total_monotonic:
  assumes "get_default th ''error_days'' 7 \<le> get_default th ''warning_days'' 30"
    and "d1 \<le> d2"
  shows "classify d1 th \<in> {''OK'', ''WARNING'', ''ERROR'', ''EXPIRED''}
         \<and> distinct [''OK'', ''WARNING'', ''ERROR'', ''EXPIRED'']
         \<and> severity (classify d2 th) \<le> severity (classify d1 th)"
  using assms by (simp add: classify_def severity_def)

text \<open>The default thresholds, with 5 days (\<open>ERROR\<close>) against 20 days (\<open>WARNING\<close>).\<close>

theorem classify_total_monotonic_witness:
  "get_default Map.empty ''error_days'' 7 \<le> get_default Map.empty ''warning_days'' (30::int) \<and>
   (5::int) \<le> 20 \<and> classify 5 Map.empty = ''ERROR'' \<and> classify 20 Map.empty = ''WARNING'' \<and>
   severity (classify 20 Map.empty) \<le> severity (classify 5 Map.empty)"
  using classify_total_monotonic[of Map.empty 5 20]
  by (simp add: classify_def get_default_def)

subsection \<open>C5: the day count is a floor\<close>

text \<open>
  C5: \<^verbatim>\<open>days_until\<close> is the floor of the duration \<open>expiry - now\<close> in days,
  for every clock reading and expiry. A positive duration of less than one day
  gives 0 (it is not rounded to the nearest day), and every negative duration
  gives a negative count.
\<close>

theorem days_until_floor:
  "days_until now expiry = spec_days_remaining now expiry
   \<and> (0 < instant e1 - instant n1 \<and> instant e1 - instant n1 < 86400000000
        \<longrightarrow> days_until n1 e1 = 0)
   \<and> (instant e2 < instant n2 \<longrightarrow> days_until n2 e2 < 0)"
proof -
  have "0 < instant e1 - instant n1 \<and> instant e1 - instant n1 < 86400000000
          \<longrightarrow> days_until n1 e1 = 0"
    by (simp add: days_until_div div_pos_pos_trivial)
  moreover have "instant e2 < instant n2 \<longrightarrow> days_until n2 e2 < 0"
    by (simp add: days_until_div div_neg_pos_less0)
  ultimately show ?thesis
    using days_until_spec[of now expiry] by blast
qed

text \<open>
  A certificate that expires 0.9 days (77760 seconds) after the clock reading has
  0 days left, and one that expired a second before it has \<open>-1\<close>.
\<close>

theorem days_until_floor_witness:
  "valid_datetime noon \<and> valid_datetime (after_noon 1 (- 8640)) \<and> valid_datetime (after_noon 0 (- 1)) \<and>
   instant (after_noon 1 (- 8640)) - instant noon = 77760000000 \<and>
   days_until noon (after_noon 1 (- 8640)) = 0 \<and>
   instant (after_noon 0 (- 1)) < instant noon \<and>
   days_until noon (after_noon 0 (- 1)) < 0 \<and>
   spec_days_remaining noon (after_noon 0 (- 1)) = - 1"
proof -
  have a: "instant (after_noon 1 (- 8640)) - instant noon = 77760000000"
    by (simp add: instant_def example_defs)
  have b: "instant (after_noon 0 (- 1)) < instant noon"
    by (simp add: instant_def example_defs)
  have v: "valid_datetime noon" "valid_datetime (after_noon 1 (- 8640))"
      "valid_datetime (after_noon 0 (- 1))"
    by (simp_all add: valid_datetime_def example_defs)
  have c: "days_until noon (after_noon 0 (- 1)) = - 1"
    by (simp add: example_defs days_defs)
  show ?thesis
    using days_until_floor[of noon "after_noon 0 (- 1)" "after_noon 1 (- 8640)" noon
            "after_noon 0 (- 1)" noon] a b v c
    by simp
qed

subsection \<open>C6: the day count -9999\<close>




text \<open>The calls of \<^verbatim>\<open>send_slack\<close> made by a check that retrieved the certificate.\<close>

lemma check_site_success_calls:
  assumes "fetched env = Inr expiry" and "url \<noteq> []"
  shows "slack_calls (snd (check_site env ent th (Some url) w)) =
           slack_calls w @
             (if classify (days_until (clock env) expiry) th = ''OK'' then []
              else [(url, StatusLine (case name ent of None \<Rightarrow> host ent | Some n \<Rightarrow> n)
                            (host ent) (case port ent of None \<Rightarrow> 443 | Some q \<Rightarrow> q) expiry
                            (days_until (clock env) expiry)
                            (classify (days_until (clock env) expiry) th))])"
proof -
  have c: "classify (days_until (clock env) expiry) th \<in> {''OK'', ''WARNING'', ''ERROR'', ''EXPIRED''}"
    by (rule classify_cases)
  show ?thesis
  proof (cases "posted env")
    case (Inl e)
    with assms c show ?thesis
      by (auto simp: check_site_def check_site_try_def get_certificate_notAfter_def Let_def
            send_slack_def print_stdout_def print_stderr_def split: option.splits)
  next
    case (Inr u)
    with assms c show ?thesis
      by (auto simp: check_site_def check_site_try_def get_certificate_notAfter_def Let_def
            send_slack_def print_stdout_def print_stderr_def split: option.splits)
  qed
qed

subsection \<open>C7: which checks notify\<close>

text \<open>
  C7: when \<^verbatim>\<open>SLACK_WEBHOOK_URL\<close> is set to a non-empty URL and
  \<^verbatim>\<open>--no-slack\<close> is not given, a check that retrieves the certificate makes
  no call of \<^verbatim>\<open>send_slack\<close> when its status is \<open>OK\<close>, and exactly one
  call, to that URL and with the status line as its text, when its status is
  \<open>WARNING\<close>, \<open>ERROR\<close> or \<open>EXPIRED\<close>. The status is always one of these
  four, and this holds whether the request succeeds or raises.
\<close>

theorem notification_gating:
  assumes "fetched env = Inr expiry"
    and "environ_value = Some url" and "url \<noteq> []" and "\<not> no_slack"
    and "c = check_site env ent th (configured_webhook environ_value no_slack) w"
  shows "\<exists>label s d.
           fst c = Inr (label, s, d)
           \<and> s \<in> {''OK'', ''WARNING'', ''ERROR'', ''EXPIRED''}
           \<and> (s = ''OK'' \<longrightarrow> slack_calls (snd c) = slack_calls w)
           \<and> (s \<in> {''WARNING'', ''ERROR'', ''EXPIRED''} \<longrightarrow>
                slack_calls (snd c) =
                  slack_calls w @
                    [(url, StatusLine label (host ent) (case port ent of None \<Rightarrow> 443 | Some q \<Rightarrow> q)
                             expiry d s)])"
proof -
  have h: "configured_webhook environ_value no_slack = Some url"
    using assms(2,4) by (simp add: configured_webhook_def)
  show ?thesis
    unfolding assms(5) h
    using check_site_success[OF assms(1), of ent th "Some url" w]
          check_site_success_calls[OF assms(1,3), of ent th w]
          classify_cases[of "days_until (clock env) expiry" th]
    by auto
qed

text \<open>
  45 days left: no call. 5 days left and a webhook that answers with an error: one
  call, and the failure is reported on the error stream.
\<close>

theorem notification_gating_witness:
  "configured_webhook (Some ''https://hooks.example/T'') False = Some ''https://hooks.example/T'' \<and>
   check_site (expiring 45 0 (Inr ())) example_site Map.empty
       (configured_webhook (Some ''https://hooks.example/T'') False) world0
     = (Inr (''example.org'', ''OK'', 45),
        \<lparr>stdout = [StatusLine ''example.org'' ''example.org'' 443 (after_noon 45 0) 45 ''OK''],
         stderr = [], slack_calls = []\<rparr>) \<and>
   check_site (expiring 5 0 (Inl (Exception ''HTTP Error 500''))) example_site Map.empty
       (configured_webhook (Some ''https://hooks.example/T'') False) world0
     = (Inr (''example.org'', ''ERROR'', 5),
        \<lparr>stdout = [StatusLine ''example.org'' ''example.org'' 443 (after_noon 5 0) 5 ''ERROR''],
         stderr = [SlackFailureLine (Exception ''HTTP Error 500'')],
         slack_calls = [(''https://hooks.example/T'',
            StatusLine ''example.org'' ''example.org'' 443 (after_noon 5 0) 5 ''ERROR'')]\<rparr>)"
  using notification_gating[where env = "expiring 45 0 (Inr ())" and expiry = "after_noon 45 0"
          and environ_value = "Some ''https://hooks.example/T''" and url = "''https://hooks.example/T''"
          and no_slack = False and ent = example_site and th = Map.empty and w = world0, OF _ _ _ _ refl]
        notification_gating[where env = "expiring 5 0 (Inl (Exception ''HTTP Error 500''))"
          and expiry = "after_noon 5 0"
          and environ_value = "Some ''https://hooks.example/T''" and url = "''https://hooks.example/T''"
          and no_slack = False and ent = example_site and th = Map.empty and w = world0, OF _ _ _ _ refl]
  by (simp add: configured_webhook_def example_defs days_defs check_defs)


subsection \<open>C8: the notifier's outcome changes no result\<close>



subsection \<open>C10: EXPIRED means the expiry is in the past\<close>

text \<open>
  C10: when the certificate is retrieved, the status is \<open>EXPIRED\<close> if and only
  if the expiry instant is strictly before the clock reading. An expiry at or
  after the clock reading gives a day count of at least 0, and an expiry before
  it, by however little, gives a day count of at most \<open>-1\<close>.
\<close>

theorem expired_iff_past:
  assumes "fetched env = Inr expiry"
  shows "\<exists>label s d.
           fst (check_site env ent th slack_webhook w) = Inr (label, s, d)
           \<and> (s = ''EXPIRED'' \<longleftrightarrow> instant expiry < instant (clock env))
           \<and> (instant (clock env) \<le> instant expiry \<longrightarrow> 0 \<le> d)
           \<and> (instant expiry < instant (clock env) \<longrightarrow> d \<le> - 1)"
proof -
  define x where "x = instant expiry - instant (clock env)"
  define q where "q = x div 86400000000"
  define r where "r = x mod 86400000000"
  have "0 \<le> r" "r < 86400000000" by (simp_all add: r_def)
  moreover have "x = 86400000000 * q + r" by (simp add: q_def r_def)
  ultimately have "(q < 0 \<longleftrightarrow> x < 0)" by linarith
  then have d: "days_until (clock env) expiry < 0 \<longleftrightarrow> instant expiry < instant (clock env)"
    by (simp add: days_until_div q_def x_def)
  show ?thesis
    using check_site_success[OF assms, of ent th slack_webhook w] d
      classify_expired_iff[of "days_until (clock env) expiry" th]
    by auto
qed

text \<open>
  One second past the expiry the status is \<open>EXPIRED\<close> with \<open>-1\<close> days; at the
  very instant of expiry the count is 0 and the status is not \<open>EXPIRED\<close>.
\<close>

theorem expired_iff_past_witness:
  "instant (after_noon 0 (- 1)) < instant noon \<and>
   fst (check_site (expiring 0 (- 1) (Inr ())) example_site Map.empty None world0)
     = Inr (''example.org'', ''EXPIRED'', - 1) \<and>
   instant noon \<le> instant (after_noon 0 0) \<and>
   fst (check_site (expiring 0 0 (Inr ())) example_site Map.empty None world0)
     = Inr (''example.org'', ''ERROR'', 0)"
proof -
  have i: "instant (after_noon 0 (- 1)) < instant noon" "instant noon \<le> instant (after_noon 0 0)"
    by (simp_all add: instant_def example_defs)
  show ?thesis
    using expired_iff_past[of "expiring 0 (- 1) (Inr ())" "after_noon 0 (- 1)" example_site
            Map.empty None world0]
          expired_iff_past[of "expiring 0 0 (Inr ())" "after_noon 0 0" example_site
            Map.empty None world0] i
    by (simp add: example_defs days_defs check_defs)
qed

end
